theory Spec2Isabelle
  imports Main "HOL-Library.Word"
begin

section \<open>Data model\<close>

text \<open>
  The controller of \<^verbatim>\<open>pkg/controller.go\<close> watches Services and keeps one Ingress per
  Service that carries the annotation \<^verbatim>\<open>ingress/http\<close>. The Kubernetes API types are
  modelled with the fields the controller reads or writes. A Go pointer that may be nil
  is an \<open>option\<close>; a Go \<^verbatim>\<open>error\<close> value that may be nil is an \<open>error option\<close>.
\<close>

type_synonym key = string

text \<open>
  Errors: an API status error carries its reason (\<^verbatim>\<open>errors.IsNotFound\<close> looks at it),
  any other error is a formatted message.
\<close>

datatype error = StatusError string | Errorf string

text \<open>The outcome of a Go call: it returns, it panics, or it blocks on the queue.\<close>

datatype 'a result = Returns 'a | Panics | Blocks

record OwnerReference =
  APIVersion :: string
  Kind :: string
  RefName :: string
  RefUID :: string
  Controller :: "bool option"
  BlockOwnerDeletion :: "bool option"

text \<open>\<^verbatim>\<open>metav1.ObjectMeta\<close>, embedded in both Service and Ingress.\<close>

record ObjectMeta =
  Name :: string
  Namespace :: string
  UID :: string
  Annotations :: "string \<rightharpoonup> string"
  OwnerReferences :: "OwnerReference list"

record Service = ObjectMeta +
  Ports :: "32 word list"

datatype PathType = PathTypeExact | PathTypePrefix | PathTypeImplementationSpecific

record ServiceBackendPort =
  PortName :: string
  Number :: "32 word"

record IngressServiceBackend =
  BackendName :: string
  Port :: ServiceBackendPort

record HTTPIngressPath =
  Path :: string
  PathType :: "PathType option"
  Backend :: "IngressServiceBackend option"

record IngressRule =
  Host :: string
  HTTP :: "HTTPIngressPath list option"

record Ingress = ObjectMeta +
  Rules :: "IngressRule list"

text \<open>
  An event object (\<^verbatim>\<open>interface{}\<close> in the handlers): a Service, an Ingress, the
  tombstone \<^verbatim>\<open>cache.DeletedFinalStateUnknown{Key, Obj}\<close> that an informer hands to its
  delete handler when it has missed the delete event itself, or any other value (one that
  carries no object metadata).
\<close>

datatype obj =
    ServiceObj Service
  | IngressObj Ingress
  | DeletedFinalStateUnknown key obj
  | OtherObj

section \<open>Construction of the Ingress\<close>

text \<open>
  \<^verbatim>\<open>metav1.NewControllerRef(service, coreV1.SchemeGroupVersion.WithKind("Service"))\<close>:
  the group/version of core is \<^verbatim>\<open>v1\<close>; both flags are set.
\<close>

definition NewControllerRef :: "Service \<Rightarrow> string \<Rightarrow> string \<Rightarrow> OwnerReference" where
  "NewControllerRef owner groupVersion kind =
     \<lparr> APIVersion = groupVersion, Kind = kind, RefName = Name owner, RefUID = UID owner,
       Controller = Some True, BlockOwnerDeletion = Some True \<rparr>"

definition constructIngress :: "Service \<Rightarrow> Ingress" where
  "constructIngress service =
     \<lparr> Name = Name service,
       Namespace = Namespace service,
       UID = [],
       Annotations = Map.empty,
       OwnerReferences = [NewControllerRef service ''v1'' ''Service''],
       Rules =
         [\<lparr> Host = ''example.com'',
            HTTP = Some
              [\<lparr> Path = ''/'',
                 PathType = Some PathTypePrefix,
                 Backend = Some
                   \<lparr> BackendName = Name service,
                     Port = \<lparr> PortName = [], Number = 80 \<rparr> \<rparr> \<rparr>] \<rparr>] \<rparr>"

section \<open>Library functions the controller calls\<close>

text \<open>
  \<^verbatim>\<open>errors.IsNotFound\<close>: true for a status error whose reason is \<^verbatim>\<open>NotFound\<close>; false
  for nil and for every other error.
\<close>

fun IsNotFound :: "error option \<Rightarrow> bool" where
  "IsNotFound (Some (StatusError reason)) = (reason = ''NotFound'')"
| "IsNotFound _ = False"

text \<open>\<^verbatim>\<open>strings.Split\<close> with a one-character separator; the empty string gives one empty part.\<close>

fun split_on :: "char \<Rightarrow> string \<Rightarrow> string list" where
  "split_on sep [] = [[]]"
| "split_on sep (c # cs) =
     (if c = sep then [] # split_on sep cs
      else (case split_on sep cs of [] \<Rightarrow> [[c]] | p # ps \<Rightarrow> (c # p) # ps))"

text \<open>
  Modelled from the spec: \<^verbatim>\<open>cache.SplitMetaNamespaceKey\<close> belongs to client-go and is not
  part of the repository. A key is the namespace and the name joined by the fixed
  separator \<^verbatim>\<open>/\<close>, neither of which contains the separator; as in client-go, a key
  without separator is a name in the empty namespace, and a key with more than one
  separator fails to split. The result is the Go triple \<open>(namespace, name, err)\<close>.
\<close>

definition SplitMetaNamespaceKey :: "key \<Rightarrow> string \<times> string \<times> error option" where
  "SplitMetaNamespaceKey key =
     (case split_on CHR ''/'' key of
        [name] \<Rightarrow> ([], name, None)
      | [namespace, name] \<Rightarrow> (namespace, name, None)
      | _ \<Rightarrow> ([], [], Some (Errorf (''unexpected key format: '' @ key))))"

text \<open>
  Modelled from the spec: \<^verbatim>\<open>cache.MetaNamespaceKeyFunc\<close> belongs to client-go. For an
  API object the key is \<^verbatim>\<open>namespace/name\<close> (the name alone in the empty namespace); as
  in client-go, for a value without object metadata (a tombstone is one) it returns the
  empty key and an error.
\<close>

definition ObjectNameString :: "'a ObjectMeta_scheme \<Rightarrow> key" where
  "ObjectNameString m = (if Namespace m \<noteq> [] then Namespace m @ ''/'' @ Name m else Name m)"

fun MetaNamespaceKeyFunc :: "obj \<Rightarrow> key \<times> error option" where
  "MetaNamespaceKeyFunc (ServiceObj s) = (ObjectNameString s, None)"
| "MetaNamespaceKeyFunc (IngressObj i) = (ObjectNameString i, None)"
| "MetaNamespaceKeyFunc (DeletedFinalStateUnknown k obj) =
     ([], Some (Errorf ''object has no meta''))"
| "MetaNamespaceKeyFunc OtherObj = ([], Some (Errorf ''object has no meta''))"

text \<open>
  \<^verbatim>\<open>metav1.GetControllerOf\<close>: the first owner reference whose controller flag is set and
  true, or nil.
\<close>

definition GetControllerOf :: "'a ObjectMeta_scheme \<Rightarrow> OwnerReference option" where
  "GetControllerOf controllee =
     find (\<lambda>ref. Controller ref = Some True) (OwnerReferences controllee)"

section \<open>The work queue\<close>

text \<open>
  Modelled from the spec: the rate-limiting work queue (client-go's \<^verbatim>\<open>workqueue\<close>) is
  not part of the repository. Section 4.1 of the specification gives its contract: a key
  is absent, pending or in-flight; \<open>Add\<close> inserts a key that is neither pending nor
  in-flight and remembers an \<open>Add\<close> that arrives while the key is in-flight; \<open>Get\<close> takes
  the next pending key and marks it in-flight (no \<open>Add\<close> has arrived for this flight
  yet), blocks while nothing is pending, and reports shutdown once the queue is shut
  down; \<open>Done\<close> clears the in-flight mark and
  makes the key pending again when an \<open>Add\<close> arrived meanwhile; \<open>AddRateLimited\<close> counts
  one more requeue of the key and adds it again after its backoff delay (the delay itself
  is not modelled: the key is added at once); \<open>NumRequeues\<close> reads the counter and
  \<open>Forget\<close> resets it to zero.
\<close>

record workqueue =
  pending :: "key list"
  inflight :: "key set"
  readd :: "key set"
  requeues :: "key \<Rightarrow> nat"
  shutdown :: bool

text \<open>What \<open>Get\<close> hands out: an item with \<open>shutDown = false\<close>, or \<open>shutDown = true\<close>.\<close>

datatype got = Item key | ShutDown

definition Add :: "key \<Rightarrow> workqueue \<Rightarrow> workqueue" where
  "Add item q =
     (if shutdown q then q
      else if item \<in> inflight q then q\<lparr>readd := insert item (readd q)\<rparr>
      else if item \<in> set (pending q) then q
      else q\<lparr>pending := pending q @ [item]\<rparr>)"

definition Get :: "workqueue \<Rightarrow> got result \<times> workqueue" where
  "Get q =
     (if shutdown q then (Returns ShutDown, q)
      else (case pending q of
              [] \<Rightarrow> (Blocks, q)
            | item # rest \<Rightarrow>
                (Returns (Item item),
                 q\<lparr>pending := rest, inflight := insert item (inflight q),
                   readd := readd q - {item}\<rparr>)))"

definition Done :: "key \<Rightarrow> workqueue \<Rightarrow> workqueue" where
  "Done item q =
     (if item \<in> readd q
      then q\<lparr>inflight := inflight q - {item}, readd := readd q - {item},
              pending := pending q @ [item]\<rparr>
      else q\<lparr>inflight := inflight q - {item}\<rparr>)"

definition NumRequeues :: "workqueue \<Rightarrow> key \<Rightarrow> nat" where
  "NumRequeues q item = requeues q item"

definition AddRateLimited :: "key \<Rightarrow> workqueue \<Rightarrow> workqueue" where
  "AddRateLimited item q = Add item (q\<lparr>requeues := (requeues q)(item := Suc (requeues q item))\<rparr>)"

definition Forget :: "key \<Rightarrow> workqueue \<Rightarrow> workqueue" where
  "Forget item q = q\<lparr>requeues := (requeues q)(item := 0)\<rparr>"

section \<open>The controller\<close>

text \<open>
  The collaborators of the \<^verbatim>\<open>controller\<close> struct are interface values: the two listers
  answer a lookup by namespace and name with the Go pair \<open>(object, err)\<close>, the client
  answers \<open>Create\<close> and \<open>Delete\<close> with an error or nil. The queue is the only mutable
  state; it lives in the \<open>world\<close>, together with the trace of the calls the controller
  has made on the queue, on the store client and on the error sink
  (\<^verbatim>\<open>runtime.HandleError\<close>), in the order it made them.
\<close>

record clientset =
  Create :: "string \<Rightarrow> Ingress \<Rightarrow> error option"
  Delete :: "string \<Rightarrow> string \<Rightarrow> error option"

record controller =
  client :: clientset
  ingressLister :: "string \<Rightarrow> string \<Rightarrow> Ingress option \<times> error option"
  serviceLister :: "string \<Rightarrow> string \<Rightarrow> Service option \<times> error option"

datatype effect =
    QAdd key
  | QGet
  | QDone key
  | QAddRateLimited key
  | QForget key
  | ErrorSink error
  | StoreCreate string Ingress
  | StoreDelete string string

record world =
  wq :: workqueue
  trace :: "effect list"

definition workNum :: nat where
  "workNum = 5"

definition maxRetry :: nat where
  "maxRetry = 10"

definition emit :: "effect \<Rightarrow> world \<Rightarrow> world" where
  "emit e w = w\<lparr>trace := trace w @ [e]\<rparr>"

definition queue_Add :: "key \<Rightarrow> world \<Rightarrow> world" where
  "queue_Add item w = emit (QAdd item) (w\<lparr>wq := Add item (wq w)\<rparr>)"

definition queue_Get :: "world \<Rightarrow> got result \<times> world" where
  "queue_Get w =
     (case Get (wq w) of
        (Returns g, q) \<Rightarrow> (Returns g, emit QGet (w\<lparr>wq := q\<rparr>))
      | (r, q) \<Rightarrow> (r, w))"

definition queue_Done :: "key \<Rightarrow> world \<Rightarrow> world" where
  "queue_Done item w = emit (QDone item) (w\<lparr>wq := Done item (wq w)\<rparr>)"

definition queue_AddRateLimited :: "key \<Rightarrow> world \<Rightarrow> world" where
  "queue_AddRateLimited item w = emit (QAddRateLimited item) (w\<lparr>wq := AddRateLimited item (wq w)\<rparr>)"

definition queue_Forget :: "key \<Rightarrow> world \<Rightarrow> world" where
  "queue_Forget item w = emit (QForget item) (w\<lparr>wq := Forget item (wq w)\<rparr>)"

definition HandleError :: "error \<Rightarrow> world \<Rightarrow> world" where
  "HandleError err w = emit (ErrorSink err) w"

subsection \<open>Dispatcher: the event handlers\<close>

definition enqueue :: "obj \<Rightarrow> world \<Rightarrow> world" where
  "enqueue obj w =
     (case MetaNamespaceKeyFunc obj of
        (key, err) \<Rightarrow>
          queue_Add key (case err of Some e \<Rightarrow> HandleError e w | None \<Rightarrow> w))"

definition addService :: "obj \<Rightarrow> world \<Rightarrow> world" where
  "addService obj w = enqueue obj w"

definition updateService :: "obj \<Rightarrow> obj \<Rightarrow> world \<Rightarrow> world" where
  "updateService oldObj newObj w =
     (case newObj of
        ServiceObj s \<Rightarrow> if oldObj = newObj then w else enqueue newObj w
      | _ \<Rightarrow> w)"

text \<open>
  \<^verbatim>\<open>obj.(*networkingV1.Ingress)\<close> is an unchecked type assertion: it panics for any
  other value.
\<close>

definition deleteIngress :: "obj \<Rightarrow> world \<Rightarrow> unit result \<times> world" where
  "deleteIngress obj w =
     (case obj of
        IngressObj ingress \<Rightarrow>
          (case GetControllerOf ingress of
             None \<Rightarrow> (Returns (), w)
           | Some ownerReference \<Rightarrow>
               if Kind ownerReference \<noteq> ''Service'' then (Returns (), w)
               else (Returns (), queue_Add (Namespace ingress @ ''/'' @ Name ingress) w))
      | _ \<Rightarrow> (Panics, w))"

subsection \<open>Reconciler\<close>

text \<open>
  \<^verbatim>\<open>syncService\<close>. The result variable \<open>err\<close> is assigned by each call in turn; a bare
  \<^verbatim>\<open>return\<close> returns its current value. \<^verbatim>\<open>service.GetAnnotations()\<close> dereferences the
  pointer the lister returned: it panics when that pointer is nil.
\<close>

definition syncService :: "controller \<Rightarrow> key \<Rightarrow> world \<Rightarrow> error option result \<times> world" where
  "syncService c key w =
     (case SplitMetaNamespaceKey key of
        (nameSpaceKey, name, err) \<Rightarrow>
          if err \<noteq> None then (Returns err, w)
          else
            (case serviceLister c nameSpaceKey name of
               (service, err) \<Rightarrow>
                 if IsNotFound err then (Returns None, w)
                 else
                   (case service of
                      None \<Rightarrow> (Panics, w)
                    | Some svc \<Rightarrow>
                        (let ok = (Annotations svc ''ingress/http'' \<noteq> None) in
                         case ingressLister c nameSpaceKey name of
                           (ingress, err) \<Rightarrow>
                             if err \<noteq> None \<and> \<not> IsNotFound err then (Returns err, w)
                             else if ok \<and> IsNotFound err then
                               (let ig = constructIngress svc;
                                    w1 = emit (StoreCreate nameSpaceKey ig) w;
                                    err = Create (client c) nameSpaceKey ig
                                in if err \<noteq> None then (Returns err, w1) else (Returns None, w1))
                             else if \<not> ok \<and> ingress \<noteq> None then
                               (let w1 = emit (StoreDelete nameSpaceKey name) w;
                                    err = Delete (client c) nameSpaceKey name
                                in if err \<noteq> None then (Returns err, w1) else (Returns None, w1))
                             else (Returns None, w)))))"

subsection \<open>Retry policy and workers\<close>

definition handlerError :: "key \<Rightarrow> error \<Rightarrow> world \<Rightarrow> world" where
  "handlerError key err w =
     queue_Forget key
       (HandleError err
          (if NumRequeues (wq w) key \<le> maxRetry then queue_AddRateLimited key w else w))"

text \<open>
  \<^verbatim>\<open>processNextItem\<close>. \<^verbatim>\<open>Done\<close> is deferred right after \<open>Get\<close>, so it runs last on every
  path that pulled an item, also when \<open>syncService\<close> panics.
\<close>

definition processNextItem :: "controller \<Rightarrow> world \<Rightarrow> bool result \<times> world" where
  "processNextItem c w =
     (case queue_Get w of
        (Returns ShutDown, w1) \<Rightarrow> (Returns False, w1)
      | (Returns (Item key), w1) \<Rightarrow>
          (case syncService c key w1 of
             (Returns None, w2) \<Rightarrow> (Returns True, queue_Done key w2)
           | (Returns (Some err), w2) \<Rightarrow> (Returns False, queue_Done key (handlerError key err w2))
           | (Panics, w2) \<Rightarrow> (Panics, queue_Done key w2)
           | (Blocks, w2) \<Rightarrow> (Blocks, w2))
      | (Panics, w1) \<Rightarrow> (Panics, w1)
      | (Blocks, w1) \<Rightarrow> (Blocks, w1))"

text \<open>\<^verbatim>\<open>worker\<close>: \<^verbatim>\<open>for c.processNextItem() {}\<close>.\<close>

function worker :: "controller \<Rightarrow> world \<Rightarrow> unit result \<times> world" where
  "worker c w =
     (case processNextItem c w of
        (Returns True, w1) \<Rightarrow> worker c w1
      | (Returns False, w1) \<Rightarrow> (Returns (), w1)
      | (Panics, w1) \<Rightarrow> (Panics, w1)
      | (Blocks, w1) \<Rightarrow> (Blocks, w1))"
  by pat_completeness auto
termination
  by (relation "measure (\<lambda>(c, w). length (pending (wq w)))")
     (auto simp: processNextItem_def queue_Get_def Get_def queue_Done_def Done_def emit_def
                 syncService_def Let_def
           split: prod.splits result.splits got.splits option.splits list.splits if_splits)

text \<open>
  \<^verbatim>\<open>Run\<close> starts \<open>workNum\<close> workers under \<^verbatim>\<open>wait.Until\<close>, which starts a worker again
  after it has returned. The queue serialises them; \<open>process_items n\<close> is the effect of
  \<open>n\<close> successive calls of \<open>processNextItem\<close>, whichever worker makes them.
\<close>

fun process_items :: "nat \<Rightarrow> controller \<Rightarrow> world \<Rightarrow> world" where
  "process_items 0 c w = w"
| "process_items (Suc n) c w = process_items n c (snd (processNextItem c w))"

text \<open>
  The ingress lister after the informer cache has observed a store call: a created
  Ingress is found under its namespace and name, a deleted one is not found.
\<close>

fun lister_after ::
  "effect \<Rightarrow> (string \<Rightarrow> string \<Rightarrow> Ingress option \<times> error option)
          \<Rightarrow> (string \<Rightarrow> string \<Rightarrow> Ingress option \<times> error option)" where
  "lister_after (StoreCreate ns ig) l =
     (\<lambda>n m. if n = ns \<and> m = Name ig then (Some ig, None) else l n m)"
| "lister_after (StoreDelete ns name) l =
     (\<lambda>n m. if n = ns \<and> m = name then (None, Some (StatusError ''NotFound'')) else l n m)"
| "lister_after _ l = l"

section \<open>Reading the trace\<close>

fun is_QAdd :: "effect \<Rightarrow> bool" where
  "is_QAdd (QAdd k) = True"
| "is_QAdd _ = False"

fun is_QGet :: "effect \<Rightarrow> bool" where
  "is_QGet QGet = True"
| "is_QGet _ = False"

fun is_retry_of :: "key \<Rightarrow> effect \<Rightarrow> bool" where
  "is_retry_of key (QAddRateLimited k) = (k = key)"
| "is_retry_of key _ = False"

fun is_Create :: "effect \<Rightarrow> bool" where
  "is_Create (StoreCreate ns ig) = True"
| "is_Create _ = False"

section \<open>Example objects\<close>

text \<open>Concrete Services, listers, clients and queues at which the theorems are evaluated.\<close>

definition annotated_service :: "string \<Rightarrow> string \<Rightarrow> Service" where
  "annotated_service ns name =
     \<lparr> Name = name, Namespace = ns, UID = ''uid-'' @ name,
       Annotations = [''ingress/http'' \<mapsto> ''true''], OwnerReferences = [], Ports = [8080] \<rparr>"

definition plain_service :: "string \<Rightarrow> string \<Rightarrow> Service" where
  "plain_service ns name =
     \<lparr> Name = name, Namespace = ns, UID = ''uid-'' @ name,
       Annotations = Map.empty, OwnerReferences = [], Ports = [8080] \<rparr>"

definition not_found :: "'a option \<times> error option" where
  "not_found = (None, Some (StatusError ''NotFound''))"

definition only_web :: "'a \<Rightarrow> string \<Rightarrow> string \<Rightarrow> 'a option \<times> error option" where
  "only_web x ns name = (if ns = ''default'' \<and> name = ''web'' then (Some x, None) else not_found)"

definition ok_client :: clientset where
  "ok_client = \<lparr> Create = (\<lambda>ns ig. None), Delete = (\<lambda>ns name. None) \<rparr>"

definition failing_client :: clientset where
  "failing_client =
     \<lparr> Create = (\<lambda>ns ig. Some (StatusError ''InternalError'')),
       Delete = (\<lambda>ns name. Some (StatusError ''InternalError'')) \<rparr>"

text \<open>The Service \<^verbatim>\<open>default/web\<close> is annotated and has no Ingress; the store accepts calls.\<close>

definition creating_controller :: controller where
  "creating_controller =
     \<lparr> client = ok_client, ingressLister = (\<lambda>ns name. not_found),
       serviceLister = only_web (annotated_service ''default'' ''web'') \<rparr>"

text \<open>The Service \<^verbatim>\<open>default/web\<close> is not annotated and has an Ingress.\<close>

definition deleting_controller :: controller where
  "deleting_controller =
     \<lparr> client = ok_client,
       ingressLister = only_web (constructIngress (plain_service ''default'' ''web'')),
       serviceLister = only_web (plain_service ''default'' ''web'') \<rparr>"

text \<open>Every Service is annotated, none has an Ingress, and every store call fails.\<close>

definition failing_controller :: controller where
  "failing_controller =
     \<lparr> client = failing_client, ingressLister = (\<lambda>ns name. not_found),
       serviceLister = (\<lambda>ns name. (Some (annotated_service ns name), None)) \<rparr>"

text \<open>The service lister fails with an error other than not-found.\<close>

definition broken_lister_controller :: controller where
  "broken_lister_controller =
     \<lparr> client = ok_client, ingressLister = (\<lambda>ns name. not_found),
       serviceLister = (\<lambda>ns name. (None, Some (StatusError ''InternalError''))) \<rparr>"

definition queue_of :: "key list \<Rightarrow> workqueue" where
  "queue_of keys =
     \<lparr> pending = keys, inflight = {}, readd = {}, requeues = (\<lambda>k. 0), shutdown = False \<rparr>"

definition world_of :: "key list \<Rightarrow> world" where
  "world_of keys = \<lparr> wq = queue_of keys, trace = [] \<rparr>"

text \<open>An Ingress whose controller is not a Service, and one without owner.\<close>

definition foreign_ingress :: Ingress where
  "foreign_ingress =
     \<lparr> Name = ''web'', Namespace = ''default'', UID = ''uid-ing'', Annotations = Map.empty,
       OwnerReferences =
         [\<lparr> APIVersion = ''apps/v1'', Kind = ''Deployment'', RefName = ''web'',
            RefUID = ''uid-dep'', Controller = Some True, BlockOwnerDeletion = Some True \<rparr>],
       Rules = [] \<rparr>"

definition orphan_ingress :: Ingress where
  "orphan_ingress =
     \<lparr> Name = ''web'', Namespace = ''default'', UID = ''uid-ing'', Annotations = Map.empty,
       OwnerReferences =
         [\<lparr> APIVersion = ''v1'', Kind = ''Service'', RefName = ''web'',
            RefUID = ''uid-web'', Controller = None, BlockOwnerDeletion = None \<rparr>],
       Rules = [] \<rparr>"

section \<open>Properties\<close>

lemma syncService_wq: "wq (snd (syncService c key w)) = wq w"
  by (auto simp: syncService_def Let_def emit_def split: prod.splits option.splits)

lemma syncService_trace_queue:
  "filter (is_retry_of key) (trace (snd (syncService c k w))) = filter (is_retry_of key) (trace w)
   \<and> filter is_QGet (trace (snd (syncService c k w))) = filter is_QGet (trace w)"
  by (auto simp: syncService_def Let_def emit_def split: prod.splits option.splits)

lemma split_default_web:
  "SplitMetaNamespaceKey ''default/web'' = (''default'', ''web'', None)"
  by (simp add: SplitMetaNamespaceKey_def)

lemma split_malformed:
  "SplitMetaNamespaceKey ''a/b/c'' = ([], [], Some (Errorf ''unexpected key format: a/b/c''))"
  by (simp add: SplitMetaNamespaceKey_def)

lemma failing_sync:
  "syncService failing_controller ''default/web'' w =
     (Returns (Some (StatusError ''InternalError'')),
      emit (StoreCreate ''default'' (constructIngress (annotated_service ''default'' ''web''))) w)"
  by (simp add: syncService_def split_default_web failing_controller_def failing_client_def
        not_found_def annotated_service_def)

subsection \<open>Reconciler\<close>

text \<open>
  C1: for a key that splits into namespace and name, \<open>syncService\<close> follows the decision
  table. When the lister reports the Service as not found it returns nil and makes no
  store call. When the Service is found: with the annotation and the Ingress not found it
  makes exactly one \<open>Create\<close> of the constructed Ingress; without the annotation and the
  Ingress found it makes exactly one \<open>Delete\<close> for the namespace and name; in the two
  other cases it makes no store call and returns nil. After a store call it returns what
  the call returned: nil when the call succeeded.
\<close>

theorem syncService_decision_table:
  assumes "SplitMetaNamespaceKey key = (ns, name, None)"
  shows
   "(IsNotFound (snd (serviceLister c ns name)) \<longrightarrow> syncService c key w = (Returns None, w))
    \<and> (serviceLister c ns name = (Some svc, None) \<longrightarrow>
        (Annotations svc ''ingress/http'' \<noteq> None
           \<and> ingressLister c ns name = (None, Some e) \<and> IsNotFound (Some e) \<longrightarrow>
         syncService c key w =
           (Returns (Create (client c) ns (constructIngress svc)),
            w\<lparr>trace := trace w @ [StoreCreate ns (constructIngress svc)]\<rparr>))
      \<and> (Annotations svc ''ingress/http'' \<noteq> None
           \<and> ingressLister c ns name = (Some ing, None) \<longrightarrow>
         syncService c key w = (Returns None, w))
      \<and> (Annotations svc ''ingress/http'' = None
           \<and> ingressLister c ns name = (Some ing, None) \<longrightarrow>
         syncService c key w =
           (Returns (Delete (client c) ns name), w\<lparr>trace := trace w @ [StoreDelete ns name]\<rparr>))
      \<and> (Annotations svc ''ingress/http'' = None
           \<and> ingressLister c ns name = (None, Some e) \<and> IsNotFound (Some e) \<longrightarrow>
         syncService c key w = (Returns None, w)))"
  using assms
  by (cases "serviceLister c ns name")
     (auto simp: syncService_def Let_def emit_def)

text \<open>The table at the annotated Service without Ingress, and at the plain Service with one.\<close>

theorem syncService_decision_table_witness:
  "SplitMetaNamespaceKey ''default/web'' = (''default'', ''web'', None)
   \<and> syncService creating_controller ''default/web'' (world_of []) =
       (Returns None,
        (world_of [])\<lparr>trace :=
          [StoreCreate ''default'' (constructIngress (annotated_service ''default'' ''web''))]\<rparr>)
   \<and> syncService deleting_controller ''default/web'' (world_of []) =
       (Returns None, (world_of [])\<lparr>trace := [StoreDelete ''default'' ''web'']\<rparr>)"
  using
    syncService_decision_table [OF split_default_web, where c = creating_controller
      and svc = "annotated_service ''default'' ''web''" and e = "StatusError ''NotFound''"
      and w = "world_of []"]
    syncService_decision_table [OF split_default_web, where c = deleting_controller
      and svc = "plain_service ''default'' ''web''"
      and ing = "constructIngress (plain_service ''default'' ''web'')" and w = "world_of []"]
  by (simp add: split_default_web creating_controller_def deleting_controller_def only_web_def
        not_found_def ok_client_def annotated_service_def plain_service_def world_of_def)

text \<open>
  \<open>syncService\<close> reads nothing of the world: on the same key, with the same controller, it
  returns the same value and makes the same store calls from every world. A second call
  with unchanged lister and client results therefore repeats the store call of the first.
\<close>

lemma syncService_same_results_repeats:
  "fst (syncService c key w') = fst (syncService c key w)
   \<and> drop (length (trace w')) (trace (snd (syncService c key w'))) =
       drop (length (trace w)) (trace (snd (syncService c key w)))"
  by (auto simp: syncService_def Let_def emit_def split: prod.splits option.splits)

text \<open>
  C2, as amended: when a call of \<open>syncService\<close> has returned nil and the ingress lister
  then reflects the store call it made (the created Ingress is found, the deleted one is
  not found; nothing changes when it made none), a second call on the same key, with the
  Service unchanged, makes no store call and returns nil. The Service the lister finds under
  a key bears the name of the key.
\<close>

theorem syncService_idempotent_after_refresh:
  assumes "syncService c key w = (Returns None, w1)"
      and "SplitMetaNamespaceKey key = (ns, name, err)"
      and "\<forall>svc e. serviceLister c ns name = (Some svc, e) \<longrightarrow> Name svc = name"
  shows "syncService
           (c\<lparr>ingressLister :=
                fold lister_after (drop (length (trace w)) (trace w1)) (ingressLister c)\<rparr>)
           key w1 = (Returns None, w1)"
  using assms
  by (auto simp: syncService_def Let_def emit_def constructIngress_def
           split: prod.splits option.splits if_splits)

text \<open>After the \<open>Create\<close> for \<^verbatim>\<open>default/web\<close> has been observed, the second call is a no-op.\<close>

theorem syncService_idempotent_after_refresh_witness:
  "syncService creating_controller ''default/web'' (world_of []) =
     (Returns None,
      emit (StoreCreate ''default'' (constructIngress (annotated_service ''default'' ''web'')))
        (world_of []))
   \<and> syncService
       (creating_controller\<lparr>ingressLister :=
          lister_after
            (StoreCreate ''default'' (constructIngress (annotated_service ''default'' ''web'')))
            (ingressLister creating_controller)\<rparr>)
       ''default/web''
       (emit (StoreCreate ''default'' (constructIngress (annotated_service ''default'' ''web'')))
          (world_of [])) =
     (Returns None,
      emit (StoreCreate ''default'' (constructIngress (annotated_service ''default'' ''web'')))
        (world_of []))"
proof -
  let ?ig = "constructIngress (annotated_service ''default'' ''web'')"
  let ?w1 = "emit (StoreCreate ''default'' ?ig) (world_of [])"
  have first: "syncService creating_controller ''default/web'' (world_of []) = (Returns None, ?w1)"
    by (simp add: syncService_def split_default_web creating_controller_def only_web_def
          not_found_def ok_client_def annotated_service_def)
  have named: "\<forall>svc e. serviceLister creating_controller ''default'' ''web'' = (Some svc, e)
                 \<longrightarrow> Name svc = ''web''"
    by (simp add: creating_controller_def only_web_def annotated_service_def)
  have delta: "drop (length (trace (world_of []))) (trace ?w1) = [StoreCreate ''default'' ?ig]"
    by (simp add: emit_def world_of_def)
  from syncService_idempotent_after_refresh [OF first split_default_web named] first
  show ?thesis by (simp add: delta)
qed

text \<open>
  With the lister results unchanged, the second call repeats the \<open>Create\<close> of the first.
\<close>

theorem syncService_twice_same_results_counterexample:
  "trace (snd (syncService creating_controller ''default/web''
                (snd (syncService creating_controller ''default/web'' (world_of []))))) =
     [StoreCreate ''default'' (constructIngress (annotated_service ''default'' ''web'')),
      StoreCreate ''default'' (constructIngress (annotated_service ''default'' ''web''))]"
  by (simp add: syncService_def split_default_web creating_controller_def only_web_def
        not_found_def ok_client_def annotated_service_def emit_def world_of_def)

text \<open>
  C6: a service lookup that fails with an error other than not-found leaves the Service
  pointer nil, and \<open>syncService\<close> goes on to read its annotations: it panics, where the
  claim has it return the error.
\<close>

theorem syncService_service_lookup_error_panics:
  assumes "SplitMetaNamespaceKey key = (ns, name, None)"
      and "serviceLister c ns name = (None, Some e)"
      and "\<not> IsNotFound (Some e)"
  shows "syncService c key w = (Panics, w)"
  using assms by (simp add: syncService_def)

theorem syncService_service_lookup_error_panics_witness:
  "serviceLister broken_lister_controller ''default'' ''web'' =
     (None, Some (StatusError ''InternalError''))
   \<and> \<not> IsNotFound (Some (StatusError ''InternalError''))
   \<and> syncService broken_lister_controller ''default/web'' (world_of []) = (Panics, world_of [])"
  using syncService_service_lookup_error_panics [OF split_default_web,
      where c = broken_lister_controller and e = "StatusError ''InternalError''"
      and w = "world_of []"]
  by (simp add: broken_lister_controller_def)

text \<open>
  C9: the constructed Ingress has the name and the namespace of the Service; its only
  owner reference is the controller reference of kind Service that names the Service; it
  has one rule, whose single path \<^verbatim>\<open>/\<close> leads to the Service's own name on port 80,
  whatever the ports of the Service are.
\<close>

theorem constructIngress_spec:
  "Name (constructIngress service) = Name service
   \<and> Namespace (constructIngress service) = Namespace service
   \<and> OwnerReferences (constructIngress service) = [NewControllerRef service ''v1'' ''Service'']
   \<and> GetControllerOf (constructIngress service) = Some (NewControllerRef service ''v1'' ''Service'')
   \<and> Kind (NewControllerRef service ''v1'' ''Service'') = ''Service''
   \<and> RefName (NewControllerRef service ''v1'' ''Service'') = Name service
   \<and> RefUID (NewControllerRef service ''v1'' ''Service'') = UID service
   \<and> Controller (NewControllerRef service ''v1'' ''Service'') = Some True
   \<and> map HTTP (Rules (constructIngress service)) =
         [Some [\<lparr> Path = ''/'', PathType = Some PathTypePrefix,
                  Backend = Some \<lparr> BackendName = Name service,
                                   Port = \<lparr> PortName = [], Number = 80 \<rparr> \<rparr> \<rparr>]]
   \<and> constructIngress (service\<lparr>Ports := ports\<rparr>) = constructIngress service"
  by (simp add: constructIngress_def NewControllerRef_def GetControllerOf_def)

theorem constructIngress_spec_witness:
  "Name (constructIngress (annotated_service ''default'' ''web'')) = ''web''
   \<and> Namespace (constructIngress (annotated_service ''default'' ''web'')) = ''default''
   \<and> map Kind (OwnerReferences (constructIngress (annotated_service ''default'' ''web''))) =
       [''Service'']
   \<and> length (Rules (constructIngress (annotated_service ''default'' ''web''))) = 1"
  using constructIngress_spec [of "annotated_service ''default'' ''web''" "[]"]
  by (simp add: annotated_service_def constructIngress_def)

subsection \<open>Retry policy\<close>

lemma failing_round:
  assumes "pending (wq w) = [key]" and "\<not> shutdown (wq w)"
      and "NumRequeues (wq w) key \<le> maxRetry"
      and "fst (syncService c key w') = Returns (Some e)"
      and "w' = emit QGet (w\<lparr>wq := snd (Get (wq w))\<rparr>)"
  shows "pending (wq (snd (processNextItem c w))) = [key]
       \<and> \<not> shutdown (wq (snd (processNextItem c w)))
       \<and> NumRequeues (wq (snd (processNextItem c w))) key = 0
       \<and> filter (is_retry_of key) (trace (snd (processNextItem c w))) =
           filter (is_retry_of key) (trace (snd (syncService c key w'))) @ [QAddRateLimited key]"
proof -
  obtain w2 where s: "syncService c key w' = (Returns (Some e), w2)"
    using assms(4) by (cases "syncService c key w'") auto
  have q: "wq w2 = wq w'"
    using syncService_wq [of c key w'] s by simp
  have g: "queue_Get w = (Returns (Item key), w')"
    using assms(1,2,5) by (simp add: queue_Get_def Get_def)
  have p: "processNextItem c w = (Returns False, queue_Done key (handlerError key e w2))"
    using g s by (simp add: processNextItem_def)
  show ?thesis
    using assms(1,2,3,5) q s
    by (simp add: p handlerError_def queue_Forget_def HandleError_def queue_AddRateLimited_def
          queue_Done_def emit_def Forget_def NumRequeues_def AddRateLimited_def Add_def Done_def
          Get_def)
qed

lemma failing_round_gets:
  assumes "pending (wq w) = [key]" and "\<not> shutdown (wq w)"
      and "fst (syncService c key w') = Returns (Some e)"
      and "w' = emit QGet (w\<lparr>wq := snd (Get (wq w))\<rparr>)"
  shows "filter is_QGet (trace (snd (processNextItem c w))) = filter is_QGet (trace w) @ [QGet]"
proof -
  obtain w2 where s: "syncService c key w' = (Returns (Some e), w2)"
    using assms(3) by (cases "syncService c key w'") auto
  have t: "filter is_QGet (trace w2) = filter is_QGet (trace w')"
    using syncService_trace_queue [of key c key w'] s by simp
  have g: "queue_Get w = (Returns (Item key), w')"
    using assms(1,2,4) by (simp add: queue_Get_def Get_def)
  have p: "processNextItem c w = (Returns False, queue_Done key (handlerError key e w2))"
    using g s by (simp add: processNextItem_def)
  show ?thesis
    using assms(4) t
    by (simp add: p handlerError_def queue_Forget_def HandleError_def queue_AddRateLimited_def
          queue_Done_def emit_def)
qed

text \<open>
  C4: \<open>handlerError\<close> calls \<open>AddRateLimited\<close> for the key exactly when the key's
  \<open>NumRequeues\<close> is at most \<open>maxRetry\<close>; then, in either case, it reports the error to the
  error sink and calls \<open>Forget\<close> on the key, and nothing else. The queue afterwards is the
  queue on which exactly these calls have been made: the retry is scheduled when the test
  holds, and the counter of the key is zero, also when a retry has just been scheduled.
\<close>

theorem handlerError_spec:
  "trace (handlerError key err w) =
     trace w @ (if NumRequeues (wq w) key \<le> maxRetry then [QAddRateLimited key] else [])
             @ [ErrorSink err, QForget key]
   \<and> wq (handlerError key err w) =
       Forget key
         (if NumRequeues (wq w) key \<le> maxRetry then AddRateLimited key (wq w) else wq w)
   \<and> NumRequeues (wq (handlerError key err w)) key = 0"
  by (simp add: handlerError_def queue_Forget_def HandleError_def queue_AddRateLimited_def
        emit_def Forget_def NumRequeues_def)

text \<open>
  A key with no requeue so far is retried and is pending afterwards; a key with eleven
  requeues is not retried and stays off the queue. The counter is zero in both cases.
\<close>

theorem handlerError_spec_witness:
  "trace (handlerError ''default/web'' (Errorf ''boom'') (world_of [])) =
     [QAddRateLimited ''default/web'', ErrorSink (Errorf ''boom''), QForget ''default/web'']
   \<and> pending (wq (handlerError ''default/web'' (Errorf ''boom'') (world_of []))) =
       [''default/web'']
   \<and> requeues (wq (handlerError ''default/web'' (Errorf ''boom'') (world_of [])))
         ''default/web'' = 0
   \<and> trace (handlerError ''default/web'' (Errorf ''boom'')
        \<lparr> wq = (queue_of [])\<lparr>requeues := (\<lambda>k. 11)\<rparr>, trace = [] \<rparr>) =
     [ErrorSink (Errorf ''boom''), QForget ''default/web'']
   \<and> pending (wq (handlerError ''default/web'' (Errorf ''boom'')
        \<lparr> wq = (queue_of [])\<lparr>requeues := (\<lambda>k. 11)\<rparr>, trace = [] \<rparr>)) = []
   \<and> requeues (wq (handlerError ''default/web'' (Errorf ''boom'')
        \<lparr> wq = (queue_of [])\<lparr>requeues := (\<lambda>k. 11)\<rparr>, trace = [] \<rparr>))
         ''default/web'' = 0"
  using handlerError_spec [of "''default/web''" "Errorf ''boom''" "world_of []"]
    handlerError_spec [of "''default/web''" "Errorf ''boom''"
      "\<lparr> wq = (queue_of [])\<lparr>requeues := (\<lambda>k. 11)\<rparr>, trace = [] \<rparr>"]
  by (simp add: world_of_def queue_of_def NumRequeues_def maxRetry_def AddRateLimited_def
        Add_def Forget_def)

text \<open>
  C3: a key whose reconciliation fails on every attempt is never dropped. Every call of
  \<open>processNextItem\<close> that pulls it ends with the key pending again, because \<open>Forget\<close> has
  reset the counter that \<open>handlerError\<close> compares with \<open>maxRetry\<close>: after \<open>n\<close> calls the
  key has been pulled \<open>n\<close> times and requeued \<open>n\<close> times, for every \<open>n\<close>, where the claim
  allows at most \<open>maxRetry + 1\<close> attempts.
\<close>

theorem retries_unbounded:
  assumes fails: "\<forall>w. \<exists>e. fst (syncService c key w) = Returns (Some e)"
      and "pending (wq w) = [key]" and "\<not> shutdown (wq w)"
      and "NumRequeues (wq w) key \<le> maxRetry"
  shows "pending (wq (process_items n c w)) = [key]
       \<and> length (filter is_QGet (trace (process_items n c w))) =
           length (filter is_QGet (trace w)) + n
       \<and> length (filter (is_retry_of key) (trace (process_items n c w))) =
           length (filter (is_retry_of key) (trace w)) + n"
  using assms(2,3,4)
proof (induction n arbitrary: w)
  case 0
  then show ?case by simp
next
  case (Suc n)
  define w' where "w' = emit QGet (w\<lparr>wq := snd (Get (wq w))\<rparr>)"
  obtain e where e: "fst (syncService c key w') = Returns (Some e)"
    using fails by blast
  note r = failing_round [OF Suc.prems(1) Suc.prems(2) Suc.prems(3) e w'_def]
  note g = failing_round_gets [OF Suc.prems(1) Suc.prems(2) e w'_def]
  have t: "filter (is_retry_of key) (trace (snd (syncService c key w'))) =
           filter (is_retry_of key) (trace w)"
    using syncService_trace_queue [of key c key w'] by (simp add: w'_def emit_def)
  have m: "NumRequeues (wq (snd (processNextItem c w))) key \<le> maxRetry"
    using r by simp
  have ih: "pending (wq (process_items n c (snd (processNextItem c w)))) = [key]
       \<and> length (filter is_QGet (trace (process_items n c (snd (processNextItem c w))))) =
           length (filter is_QGet (trace (snd (processNextItem c w)))) + n
       \<and> length (filter (is_retry_of key) (trace (process_items n c (snd (processNextItem c w))))) =
           length (filter (is_retry_of key) (trace (snd (processNextItem c w)))) + n"
    using Suc.IH [of "snd (processNextItem c w)"] r m by blast
  show ?case
    using ih r g t by simp
qed

text \<open>
  The Service is annotated, it has no Ingress and \<open>Create\<close> always fails: after twelve
  calls, one more than \<open>maxRetry + 1\<close>, the key is still pending; it has been pulled and
  requeued twelve times, and \<open>Create\<close> has been called twelve times.
\<close>

theorem retries_unbounded_witness:
  "maxRetry + 1 < 12
   \<and> length (filter is_Create
       (trace (process_items 12 failing_controller (world_of [''default/web''])))) = 12
   \<and> pending (wq (process_items 12 failing_controller (world_of [''default/web'']))) =
       [''default/web'']
   \<and> length (filter is_QGet
       (trace (process_items 12 failing_controller (world_of [''default/web''])))) = 12
   \<and> length (filter (is_retry_of ''default/web'')
       (trace (process_items 12 failing_controller (world_of [''default/web''])))) = 12"
proof -
  have fails: "\<forall>w. \<exists>e. fst (syncService failing_controller ''default/web'' w) = Returns (Some e)"
    by (simp add: failing_sync)
  have p: "pending (wq (world_of [''default/web''])) = [''default/web'']"
    by (simp add: world_of_def queue_of_def)
  have s: "\<not> shutdown (wq (world_of [''default/web'']))"
    by (simp add: world_of_def queue_of_def)
  have m: "NumRequeues (wq (world_of [''default/web''])) ''default/web'' \<le> maxRetry"
    by (simp add: world_of_def queue_of_def NumRequeues_def)
  have c: "length (filter is_Create
       (trace (process_items 12 failing_controller (world_of [''default/web''])))) = 12"
    by (simp add: eval_nat_numeral processNextItem_def failing_sync handlerError_def
          queue_Forget_def HandleError_def queue_AddRateLimited_def queue_Done_def emit_def
          Forget_def NumRequeues_def AddRateLimited_def Add_def Done_def Get_def queue_Get_def
          world_of_def queue_of_def maxRetry_def)
  from retries_unbounded [OF fails p s m, of 12] c
  show ?thesis by (simp add: world_of_def maxRetry_def)
qed

subsection \<open>Workers\<close>

text \<open>
  C5, as amended: a queue item that fails to split makes \<open>syncService\<close> return the split
  error without a store call, whatever the listers and the client answer, and
  \<open>processNextItem\<close> hands it to \<open>handlerError\<close> as it does any other failure:
  \<open>AddRateLimited\<close> is called for it when its \<open>NumRequeues\<close> is at most \<open>maxRetry\<close>, the
  error is reported, \<open>Forget\<close> is called, and \<open>Done\<close> last.
\<close>

theorem processNextItem_malformed_key:
  assumes "SplitMetaNamespaceKey key = (ns, name, Some e)"
      and "queue_Get w = (Returns (Item key), w1)"
  shows "syncService c key w1 = (Returns (Some e), w1)
       \<and> snd (processNextItem c w) = queue_Done key (handlerError key e w1)
       \<and> trace (snd (processNextItem c w)) =
           trace w1 @ (if NumRequeues (wq w1) key \<le> maxRetry then [QAddRateLimited key] else [])
                    @ [ErrorSink e, QForget key, QDone key]"
  using assms
  by (simp add: syncService_def processNextItem_def handlerError_def queue_Forget_def
        HandleError_def queue_AddRateLimited_def queue_Done_def emit_def)

text \<open>The key \<^verbatim>\<open>a/b/c\<close> has two separators; pulled from a fresh queue, it is requeued.\<close>

theorem processNextItem_malformed_key_witness:
  "syncService creating_controller ''a/b/c'' (world_of []) =
     (Returns (Some (Errorf ''unexpected key format: a/b/c'')), world_of [])
   \<and> trace (snd (processNextItem creating_controller (world_of [''a/b/c'']))) =
       [QGet, QAddRateLimited ''a/b/c'', ErrorSink (Errorf ''unexpected key format: a/b/c''),
        QForget ''a/b/c'', QDone ''a/b/c'']
   \<and> pending (wq (snd (processNextItem creating_controller (world_of [''a/b/c''])))) = [''a/b/c'']"
proof -
  let ?w1 = "emit QGet ((world_of [''a/b/c''])\<lparr>wq := snd (Get (wq (world_of [''a/b/c''])))\<rparr>)"
  have g: "queue_Get (world_of [''a/b/c'']) = (Returns (Item ''a/b/c''), ?w1)"
    by (simp add: queue_Get_def Get_def world_of_def queue_of_def)
  from processNextItem_malformed_key [OF split_malformed g, of creating_controller]
  show ?thesis
    by (simp add: syncService_def split_malformed handlerError_def queue_Forget_def HandleError_def queue_AddRateLimited_def
          queue_Done_def emit_def Forget_def NumRequeues_def AddRateLimited_def Add_def Done_def
          Get_def world_of_def queue_of_def maxRetry_def)
qed

text \<open>The malformed key \<^verbatim>\<open>a/b/c\<close> is retried: \<open>AddRateLimited\<close> is called for it.\<close>

theorem malformed_key_retried_counterexample:
  "snd (snd (SplitMetaNamespaceKey ''a/b/c'')) \<noteq> None
   \<and> QAddRateLimited ''a/b/c''
       \<in> set (trace (snd (processNextItem creating_controller (world_of [''a/b/c'']))))"
  by (simp add: split_malformed processNextItem_def syncService_def handlerError_def
        queue_Forget_def HandleError_def queue_AddRateLimited_def queue_Done_def emit_def
        NumRequeues_def queue_Get_def Get_def world_of_def queue_of_def maxRetry_def)

text \<open>
  C7: when \<open>syncService\<close> fails on the item it pulled, \<open>processNextItem\<close> returns false
  although the queue is not shut down, and the loop of \<open>worker\<close> ends there, with the
  other keys left pending. The claim has \<open>processNextItem\<close> return false only on
  shutdown.
\<close>

theorem processNextItem_false_on_sync_failure:
  assumes "queue_Get w = (Returns (Item key), w1)"
      and "syncService c key w1 = (Returns (Some err), w2)"
  shows "\<not> shutdown (wq w)
       \<and> processNextItem c w = (Returns False, queue_Done key (handlerError key err w2))
       \<and> worker c w = (Returns (), queue_Done key (handlerError key err w2))"
proof -
  have a: "\<not> shutdown (wq w)"
    using assms(1) by (auto simp: queue_Get_def Get_def split: if_splits list.splits)
  have b: "processNextItem c w = (Returns False, queue_Done key (handlerError key err w2))"
    using assms by (simp add: processNextItem_def)
  have "worker c w = (Returns (), queue_Done key (handlerError key err w2))"
    by (subst worker.simps) (simp add: b)
  with a b show ?thesis by simp
qed

text \<open>
  Two keys are pending and \<open>Create\<close> fails: the worker returns after the first key; the
  second key has not been pulled.
\<close>

theorem processNextItem_false_on_sync_failure_witness:
  "\<not> shutdown (wq (world_of [''default/web'', ''default/api'']))
   \<and> fst (processNextItem failing_controller (world_of [''default/web'', ''default/api''])) =
       Returns False
   \<and> fst (worker failing_controller (world_of [''default/web'', ''default/api''])) = Returns ()
   \<and> pending (wq (snd (worker failing_controller (world_of [''default/web'', ''default/api''])))) =
       [''default/api'', ''default/web'']
   \<and> filter is_QGet
       (trace (snd (worker failing_controller (world_of [''default/web'', ''default/api''])))) =
       [QGet]"
proof -
  let ?w = "world_of [''default/web'', ''default/api'']"
  let ?w1 = "emit QGet (?w\<lparr>wq := snd (Get (wq ?w))\<rparr>)"
  have g: "queue_Get ?w = (Returns (Item ''default/web''), ?w1)"
    by (simp add: queue_Get_def Get_def world_of_def queue_of_def)
  from processNextItem_false_on_sync_failure [OF g failing_sync]
  show ?thesis
    by (simp add: handlerError_def queue_Forget_def HandleError_def queue_AddRateLimited_def
          queue_Done_def emit_def Forget_def NumRequeues_def AddRateLimited_def Add_def Done_def
          Get_def world_of_def queue_of_def maxRetry_def)
qed

subsection \<open>Dispatcher\<close>

text \<open>
  When the event object is the Ingress itself, \<open>deleteIngress\<close> enqueues nothing if the
  Ingress has no controlling owner reference or if the kind of that reference is not
  \<^verbatim>\<open>Service\<close>; otherwise it calls \<open>Add\<close> once, with the key namespace, \<^verbatim>\<open>/\<close>, name.
\<close>

lemma deleteIngress_on_Ingress:
  "(GetControllerOf ingress = None \<longrightarrow> deleteIngress (IngressObj ingress) w = (Returns (), w))
   \<and> (\<forall>ref. GetControllerOf ingress = Some ref \<and> Kind ref \<noteq> ''Service'' \<longrightarrow>
         deleteIngress (IngressObj ingress) w = (Returns (), w))
   \<and> (\<forall>ref. GetControllerOf ingress = Some ref \<and> Kind ref = ''Service'' \<longrightarrow>
         deleteIngress (IngressObj ingress) w =
           (Returns (),
            w\<lparr>wq := Add (Namespace ingress @ ''/'' @ Name ingress) (wq w),
               trace := trace w @ [QAdd (Namespace ingress @ ''/'' @ Name ingress)]\<rparr>))"
  by (simp add: deleteIngress_def queue_Add_def emit_def)

lemma deleteIngress_on_Ingress_examples:
  "snd (deleteIngress (IngressObj (constructIngress (annotated_service ''default'' ''web'')))
          (world_of [])) =
     \<lparr> wq = queue_of [''default/web''], trace = [QAdd ''default/web''] \<rparr>
   \<and> deleteIngress (IngressObj foreign_ingress) (world_of []) = (Returns (), world_of [])
   \<and> deleteIngress (IngressObj orphan_ingress) (world_of []) = (Returns (), world_of [])"
  by (simp add: deleteIngress_def queue_Add_def emit_def GetControllerOf_def
        constructIngress_def NewControllerRef_def annotated_service_def foreign_ingress_def
        orphan_ingress_def world_of_def queue_of_def Add_def)

text \<open>
  C8: not every delete event of an Ingress carries the Ingress itself. When the informer
  has missed the delete, the handler receives the tombstone that wraps the last known
  Ingress; the unchecked type assertion of \<open>deleteIngress\<close> then panics and nothing is
  enqueued, also when the wrapped Ingress is controlled by a Service, where the claim has
  the key of the Ingress enqueued. The same holds for every event object that is not an
  Ingress.
\<close>

theorem deleteIngress_tombstone_panics:
  "deleteIngress (DeletedFinalStateUnknown k (IngressObj ingress)) w = (Panics, w)
   \<and> deleteIngress (DeletedFinalStateUnknown k obj) w = (Panics, w)
   \<and> deleteIngress (ServiceObj service) w = (Panics, w)
   \<and> deleteIngress OtherObj w = (Panics, w)"
  by (simp add: deleteIngress_def)

text \<open>
  The Ingress of the Service \<^verbatim>\<open>default/web\<close>, controlled by that Service: delivered as
  itself its key is enqueued, delivered in a tombstone the handler panics and the queue
  stays empty.
\<close>

theorem deleteIngress_tombstone_panics_witness:
  "map Kind (case_option [] (\<lambda>ref. [ref])
       (GetControllerOf (constructIngress (annotated_service ''default'' ''web'')))) =
     [''Service'']
   \<and> snd (deleteIngress (IngressObj (constructIngress (annotated_service ''default'' ''web'')))
          (world_of [])) =
     \<lparr> wq = queue_of [''default/web''], trace = [QAdd ''default/web''] \<rparr>
   \<and> deleteIngress
       (DeletedFinalStateUnknown ''default/web''
          (IngressObj (constructIngress (annotated_service ''default'' ''web''))))
       (world_of []) = (Panics, world_of [])
   \<and> pending (wq (world_of [])) = []"
  using deleteIngress_tombstone_panics
      [of "''default/web''" "constructIngress (annotated_service ''default'' ''web'')"
          "world_of []"]
  by (simp add: deleteIngress_def queue_Add_def emit_def GetControllerOf_def
        constructIngress_def NewControllerRef_def annotated_service_def world_of_def
        queue_of_def Add_def)

text \<open>
  C10: \<open>enqueue\<close> calls \<open>Add\<close> exactly once for every object. When the key cannot be
  derived, the error goes to the error sink first and the key that is added is the empty
  string.
\<close>

theorem enqueue_adds_exactly_once:
  "trace (enqueue obj w) =
     trace w @ (case snd (MetaNamespaceKeyFunc obj) of None \<Rightarrow> [] | Some e \<Rightarrow> [ErrorSink e])
             @ [QAdd (fst (MetaNamespaceKeyFunc obj))]
   \<and> filter is_QAdd (trace (enqueue obj w)) =
       filter is_QAdd (trace w) @ [QAdd (fst (MetaNamespaceKeyFunc obj))]
   \<and> wq (enqueue obj w) = Add (fst (MetaNamespaceKeyFunc obj)) (wq w)
   \<and> (snd (MetaNamespaceKeyFunc obj) \<noteq> None \<longrightarrow> fst (MetaNamespaceKeyFunc obj) = [])"
  by (cases obj)
     (simp_all add: enqueue_def queue_Add_def HandleError_def emit_def)

text \<open>A value without metadata puts the empty key on the queue; a Service puts its own.\<close>

theorem enqueue_adds_exactly_once_witness:
  "enqueue OtherObj (world_of []) =
     \<lparr> wq = queue_of [[]], trace = [ErrorSink (Errorf ''object has no meta''), QAdd []] \<rparr>
   \<and> enqueue (ServiceObj (annotated_service ''default'' ''web'')) (world_of []) =
     \<lparr> wq = queue_of [''default/web''], trace = [QAdd ''default/web''] \<rparr>"
  using enqueue_adds_exactly_once [of OtherObj "world_of []"]
    enqueue_adds_exactly_once [of "ServiceObj (annotated_service ''default'' ''web'')" "world_of []"]
  by (simp add: enqueue_def queue_Add_def HandleError_def emit_def Add_def ObjectNameString_def
        annotated_service_def world_of_def queue_of_def)

end
